theory Spec2Isabelle
  imports Complex_Main
begin

section \<open>Python values of the notebooks\<close>

text \<open>
  The notebooks are Python. A \<open>str\<close> is modelled by the bytes of its UTF-8 encoding,
  so the three non-ASCII characters that occur in the string literals of the code are
  byte sequences. An \<open>int\<close> is an \<open>int\<close>. \<open>None\<close> is \<open>None\<close>, a dict is a map, and a
  raised exception is the left summand of a result.
\<close>

datatype py_error =
    KeyError string
  | ValueError string
  | NotImplementedError

definition degree_sign :: string where
  \<comment> \<open>U+00B0, as it stands in \<open>'bent (120\<degree>)'\<close>\<close>
  "degree_sign = [CHR 0xC2, CHR 0xB0]"

definition nb_hyphen :: string where
  \<comment> \<open>U+2011, the non-breaking hyphen of \<open>'non-polar covalent'\<close> in the code\<close>
  "nb_hyphen = [CHR 0xE2, CHR 0x80, CHR 0x91]"

definition py_int :: "real \<Rightarrow> int" where
  \<comment> \<open>\<open>int(x)\<close> on a float: truncation toward zero\<close>
  "py_int x = (if 0 \<le> x then \<lfloor>x\<rfloor> else \<lceil>x\<rceil>)"

subsection \<open>Floats\<close>

text \<open>
  A \<open>float\<close> is an IEEE 754 double. A finite double is modelled by the real number it
  is: an integer of at most 53 bits times a power of two. \<open>double x\<close> is the double
  nearest to the real \<open>x\<close>, ties going to the even significand: a literal such as
  \<open>3.44\<close> denotes \<open>double 3.44\<close>, and the difference of two floats \<open>a\<close> and \<open>b\<close> is
  \<open>double (a - b)\<close>. \<open>abs\<close> and the comparisons are exact. The exponent range is not
  bounded (no overflow to infinity, no NaN); the electronegativities are far from it,
  and a difference of two doubles that falls in the subnormal range is exact.

  The bond orders that \<open>GetBondTypeAsDouble\<close> returns are multiples of one half; their
  sums are exact in double arithmetic and are added as reals.
\<close>

function exponent :: "real \<Rightarrow> int" where
  \<comment> \<open>for positive \<open>x\<close>, the \<open>e\<close> with \<open>2 ^ e \<le> x < 2 ^ (e + 1)\<close>\<close>
  "exponent x =
     (if x \<le> 0 then 0
      else if 2 \<le> x then exponent (x / 2) + 1
      else if x < 1 then exponent (x * 2) - 1
      else 0)"
  by pat_completeness auto
termination
proof (relation "measure (\<lambda>x. nat \<bar>\<lfloor>log 2 x\<rfloor>\<bar>)")
  show "wf (measure (\<lambda>x. nat \<bar>\<lfloor>log 2 x\<rfloor>\<bar>))" by simp
next
  fix x :: real
  assume "\<not> x \<le> 0" and "2 \<le> x"
  then have "log 2 (x / 2) = log 2 x - 1" and "1 \<le> log 2 x"
    by (simp_all add: log_divide)
  then show "(x / 2, x) \<in> measure (\<lambda>x. nat \<bar>\<lfloor>log 2 x\<rfloor>\<bar>)"
    by simp
next
  fix x :: real
  assume "\<not> x \<le> 0" and "\<not> 2 \<le> x" and "x < 1"
  then have e: "log 2 (x * 2) = log 2 x + 1" and n: "log 2 x < 0"
    by (simp_all add: log_mult)
  from n have fl: "\<lfloor>log 2 x\<rfloor> \<le> - 1"
    by (simp add: floor_le_iff)
  have "\<lfloor>log 2 (x * 2)\<rfloor> = \<lfloor>log 2 x\<rfloor> + 1"
    by (simp add: e)
  with fl have "nat \<bar>\<lfloor>log 2 (x * 2)\<rfloor>\<bar> < nat \<bar>\<lfloor>log 2 x\<rfloor>\<bar>"
    by linarith
  then show "(x * 2, x) \<in> measure (\<lambda>x. nat \<bar>\<lfloor>log 2 x\<rfloor>\<bar>)"
    by (simp only: in_measure)
qed

declare exponent.simps [simp del]

definition round_half_even :: "real \<Rightarrow> int" where
  "round_half_even x =
     (let f = \<lfloor>x\<rfloor>; d = x - of_int f
      in if d < 1 / 2 then f
         else if 1 / 2 < d then f + 1
         else if even f then f else f + 1)"

definition double :: "real \<Rightarrow> real" where
  "double x =
     (if x = 0 then 0
      else let ulp = 2 powi (exponent \<bar>x\<bar> - 52)
           in of_int (round_half_even (x / ulp)) * ulp)"

section \<open>Module-level names\<close>

text \<open>
  The functions read two module-level dicts. \<open>ELECTRONEGATIVITY\<close> is changed by a later
  cell of its notebook (\<open>ELECTRONEGATIVITY.update(...)\<close>), so the module-level names are
  an explicit state that every function receives.
\<close>

record globals =
  ELECTRONEGATIVITY :: "string \<rightharpoonup> real"
  GEOM_MAP :: "int \<times> int \<rightharpoonup> string"

definition notebook :: globals where
  \<comment> \<open>the state after the defining cells have run\<close>
  "notebook = \<lparr>
     ELECTRONEGATIVITY = [
       ''H'' \<mapsto> double 2.20, ''C'' \<mapsto> double 2.55, ''N'' \<mapsto> double 3.04,
       ''O'' \<mapsto> double 3.44, ''F'' \<mapsto> double 3.98,
       ''P'' \<mapsto> double 2.19, ''S'' \<mapsto> double 2.58, ''Cl'' \<mapsto> double 3.16,
       ''Br'' \<mapsto> double 2.96, ''I'' \<mapsto> double 2.66,
       ''Na'' \<mapsto> double 0.93, ''K'' \<mapsto> double 0.82, ''Mg'' \<mapsto> double 1.31,
       ''Ca'' \<mapsto> double 1.00,
       ''Al'' \<mapsto> double 1.61, ''Si'' \<mapsto> double 1.90],
     GEOM_MAP = [
       (2, 0) \<mapsto> ''linear'',
       (3, 0) \<mapsto> ''trigonal planar'',
       (3, 1) \<mapsto> ''bent (120'' @ degree_sign @ '')'',
       (4, 0) \<mapsto> ''tetrahedral'',
       (4, 1) \<mapsto> ''trigonal pyramidal'',
       (4, 2) \<mapsto> ''bent (109'' @ degree_sign @ '')'',
       (5, 0) \<mapsto> ''trigonal bipyramidal'',
       (5, 1) \<mapsto> ''seesaw'',
       (5, 2) \<mapsto> ''T-shaped'',
       (5, 3) \<mapsto> ''linear'',
       (6, 0) \<mapsto> ''octahedral'',
       (6, 1) \<mapsto> ''square pyramidal'',
       (6, 2) \<mapsto> ''square planar'']\<rparr>"

section \<open>Bond polarity\<close>

definition en_diff :: "globals \<Rightarrow> string \<Rightarrow> string \<Rightarrow> real option" where
  \<comment> \<open>a \<open>KeyError\<close> of either subscript is caught and turned into \<open>None\<close>\<close>
  "en_diff g sym1 sym2 =
     (case ELECTRONEGATIVITY g sym1 of
        None \<Rightarrow> None
      | Some x1 \<Rightarrow>
          (case ELECTRONEGATIVITY g sym2 of
             None \<Rightarrow> None
           | Some x2 \<Rightarrow> Some \<bar>double (x1 - x2)\<bar>))"

definition classify_bond :: "real option \<Rightarrow> string" where
  "classify_bond delta =
     (case delta of
        None \<Rightarrow> ''unknown''
      | Some d \<Rightarrow>
          if d \<ge> double 1.7 then ''ionic''
          else if d \<ge> double 0.4 then ''polar covalent''
          else ''non'' @ nb_hyphen @ ''polar covalent'')"

section \<open>VSEPR geometry\<close>

definition geometry_from_counts :: "globals \<Rightarrow> int \<Rightarrow> int \<Rightarrow> string" where
  \<comment> \<open>\<open>GEOM_MAP.get((steric, lps), 'unknown')\<close>\<close>
  "geometry_from_counts g steric lps =
     (case GEOM_MAP g (steric, lps) of None \<Rightarrow> ''unknown'' | Some geom \<Rightarrow> geom)"

text \<open>
  What \<open>steric_and_lps\<close> reads from the toolkit's atom object: \<open>GetSymbol()\<close>,
  \<open>GetFormalCharge()\<close>, \<open>GetTotalDegree()\<close> and, for each bond of \<open>GetBonds()\<close>, its
  \<open>GetBondTypeAsDouble()\<close>.
\<close>

record atom =
  Symbol :: string
  FormalCharge :: int
  TotalDegree :: int
  BondTypesAsDouble :: "real list"

definition VE :: "string \<rightharpoonup> int" where
  "VE = [''H'' \<mapsto> 1, ''C'' \<mapsto> 4, ''N'' \<mapsto> 5, ''O'' \<mapsto> 6, ''F'' \<mapsto> 7, ''P'' \<mapsto> 5,
         ''S'' \<mapsto> 6, ''Cl'' \<mapsto> 7, ''Br'' \<mapsto> 7, ''I'' \<mapsto> 7, ''Xe'' \<mapsto> 8]"

definition steric_and_lps :: "atom \<Rightarrow> py_error + int \<times> int" where
  \<comment> \<open>the body is modelled; its docstring writes the formula with twice the bond orders\<close>
  "steric_and_lps a =
     (let sym = Symbol a in
      case VE sym of
        None \<Rightarrow> Inl (ValueError (''Valence electrons unknown for '' @ sym))
      | Some ve \<Rightarrow>
          (let sigma = TotalDegree a;
               bond_order_sum = sum_list (BondTypesAsDouble a);
               lps = (ve - FormalCharge a - py_int bond_order_sum) div 2;
               steric = sigma + lps
           in Inr (steric, lps)))"

section \<open>Hybridisation\<close>

definition predict_hybridisation :: "atom \<Rightarrow> py_error + string" where
  \<comment> \<open>the body is \<open>raise NotImplementedError\<close>\<close>
  "predict_hybridisation a = Inl NotImplementedError"

text \<open>
  The hybridisation notebook leaves this function as an exercise; its docstring
  asks for a string like \<open>'sp3'\<close>, its body is \<open>raise NotImplementedError\<close>.
\<close>

section \<open>Conformer RMSD matrix\<close>

text \<open>
  \<open>rdMolAlign.GetBestRMS\<close> is the toolkit's routine. It is a parameter: given the
  molecule and the ids of the probe and reference conformers it either raises or returns
  a value, and it may change the molecule (it aligns the probe conformer), so the
  molecule is threaded through the loops. The value type is arbitrary with a zero, the
  entry \<open>np.zeros\<close> fills in. Every index the loops use is below \<open>n\<close>, so the
  subscripts never leave the matrix.
\<close>

definition set_item :: "'v list list \<Rightarrow> nat \<Rightarrow> nat \<Rightarrow> 'v \<Rightarrow> 'v list list" where
  \<comment> \<open>\<open>mat[i,j] = v\<close>\<close>
  "set_item mat i j v = mat[i := (mat ! i)[j := v]]"

fun inner_loop ::
  "('m \<Rightarrow> 'c \<Rightarrow> 'c \<Rightarrow> 'e + 'v \<times> 'm) \<Rightarrow> 'c list \<Rightarrow> nat \<Rightarrow> nat list
     \<Rightarrow> 'm \<Rightarrow> 'v list list \<Rightarrow> 'e + 'm \<times> 'v list list" where
  "inner_loop GetBestRMS conf_ids i [] mol mat = Inr (mol, mat)"
| "inner_loop GetBestRMS conf_ids i (j # js) mol mat =
     (case GetBestRMS mol (conf_ids ! i) (conf_ids ! j) of
        Inl e \<Rightarrow> Inl e
      | Inr (v, mol') \<Rightarrow>
          inner_loop GetBestRMS conf_ids i js mol' (set_item (set_item mat i j v) j i v))"

fun outer_loop ::
  "('m \<Rightarrow> 'c \<Rightarrow> 'c \<Rightarrow> 'e + 'v \<times> 'm) \<Rightarrow> 'c list \<Rightarrow> nat \<Rightarrow> nat list
     \<Rightarrow> 'm \<Rightarrow> 'v list list \<Rightarrow> 'e + 'm \<times> 'v list list" where
  "outer_loop GetBestRMS conf_ids n [] mol mat = Inr (mol, mat)"
| "outer_loop GetBestRMS conf_ids n (i # is) mol mat =
     (case inner_loop GetBestRMS conf_ids i [i + 1..<n] mol mat of
        Inl e \<Rightarrow> Inl e
      | Inr (mol', mat') \<Rightarrow> outer_loop GetBestRMS conf_ids n is mol' mat')"

definition rmsd_matrix ::
  "('m \<Rightarrow> 'c \<Rightarrow> 'c \<Rightarrow> 'e + 'v \<times> 'm) \<Rightarrow> 'm \<Rightarrow> 'c list \<Rightarrow> 'e + ('v::zero) list list" where
  "rmsd_matrix GetBestRMS mol conf_ids =
     (let n = length conf_ids;
          mat = replicate n (replicate n 0)
      in case outer_loop GetBestRMS conf_ids n [0..<n] mol mat of
           Inl e \<Rightarrow> Inl e
         | Inr (mol', mat') \<Rightarrow> Inr mat')"

definition symmetric_zero_diagonal :: "nat \<Rightarrow> ('v::zero) list list \<Rightarrow> bool" where
  \<comment> \<open>an \<open>n\<close> by \<open>n\<close> matrix that equals its transpose and has zeros on the diagonal\<close>
  "symmetric_zero_diagonal n mat \<longleftrightarrow>
     length mat = n
     \<and> (\<forall>i<n. length (mat ! i) = n)
     \<and> (\<forall>i<n. \<forall>j<n. mat ! i ! j = mat ! j ! i)
     \<and> (\<forall>i<n. mat ! i ! i = 0)"

section \<open>Calls against the module-level state\<close>

text \<open>
  A piece of Python, run in a state of the module-level names, returns or raises and
  leaves a state behind. The pieces the functions are made of: \<open>return\<close>, \<open>raise\<close>,
  sequencing, \<open>try\<close> with \<open>except KeyError\<close>, the evaluation of a module-level name, the
  subscript \<open>d[k]\<close> and \<open>d.get(k, default)\<close> of a dict, and, for the one cell that writes,
  \<open>ELECTRONEGATIVITY.update(...)\<close>.
\<close>

type_synonym 'a prog = "globals \<Rightarrow> (py_error + 'a) \<times> globals"

definition ret :: "'a \<Rightarrow> 'a prog" where
  "ret x = (\<lambda>g. (Inr x, g))"

definition raise :: "py_error \<Rightarrow> 'a prog" where
  "raise e = (\<lambda>g. (Inl e, g))"

definition bind :: "'a prog \<Rightarrow> ('a \<Rightarrow> 'b prog) \<Rightarrow> 'b prog" where
  "bind m f = (\<lambda>g. case m g of (Inl e, g') \<Rightarrow> (Inl e, g') | (Inr x, g') \<Rightarrow> f x g')"

definition try_except_KeyError :: "'a prog \<Rightarrow> 'a prog \<Rightarrow> 'a prog" where
  "try_except_KeyError body handler =
     (\<lambda>g. case body g of
            (Inr x, g') \<Rightarrow> (Inr x, g')
          | (Inl e, g') \<Rightarrow>
              (case e of
                 KeyError k \<Rightarrow> handler g'
               | ValueError m \<Rightarrow> (Inl e, g')
               | NotImplementedError \<Rightarrow> (Inl e, g')))"

definition load_global :: "(globals \<Rightarrow> 'a) \<Rightarrow> 'a prog" where
  \<comment> \<open>the value bound to a module-level name\<close>
  "load_global name = (\<lambda>g. (Inr (name g), g))"

definition getitem :: "(string \<rightharpoonup> 'v) \<Rightarrow> string \<Rightarrow> 'v prog" where
  \<comment> \<open>\<open>d[k]\<close>\<close>
  "getitem d k = (case d k of None \<Rightarrow> raise (KeyError k) | Some v \<Rightarrow> ret v)"

definition dict_get :: "('k \<rightharpoonup> 'v) \<Rightarrow> 'k \<Rightarrow> 'v \<Rightarrow> 'v prog" where
  \<comment> \<open>\<open>d.get(k, dflt)\<close>\<close>
  "dict_get d k dflt = ret (case d k of None \<Rightarrow> dflt | Some v \<Rightarrow> v)"

definition update_ELECTRONEGATIVITY :: "(string \<rightharpoonup> real) \<Rightarrow> unit prog" where
  \<comment> \<open>\<open>ELECTRONEGATIVITY.update(entries)\<close>\<close>
  "update_ELECTRONEGATIVITY entries =
     (\<lambda>g. (Inr (), g\<lparr>ELECTRONEGATIVITY := ELECTRONEGATIVITY g ++ entries\<rparr>))"

text \<open>The bodies of the functions, statement by statement.\<close>

definition call_en_diff :: "string \<Rightarrow> string \<Rightarrow> real option prog" where
  "call_en_diff sym1 sym2 =
     try_except_KeyError
       (bind (load_global ELECTRONEGATIVITY) (\<lambda>d1.
        bind (getitem d1 sym1) (\<lambda>x1.
        bind (load_global ELECTRONEGATIVITY) (\<lambda>d2.
        bind (getitem d2 sym2) (\<lambda>x2.
        ret (Some \<bar>double (x1 - x2)\<bar>))))))
       (ret None)"

definition call_classify_bond :: "real option \<Rightarrow> string prog" where
  "call_classify_bond delta =
     (case delta of
        None \<Rightarrow> ret ''unknown''
      | Some d \<Rightarrow>
          if d \<ge> double 1.7 then ret ''ionic''
          else if d \<ge> double 0.4 then ret ''polar covalent''
          else ret (''non'' @ nb_hyphen @ ''polar covalent''))"

definition call_geometry_from_counts :: "int \<Rightarrow> int \<Rightarrow> string prog" where
  "call_geometry_from_counts steric lps =
     bind (load_global GEOM_MAP) (\<lambda>d. dict_get d (steric, lps) ''unknown'')"

definition call_steric_and_lps :: "atom \<Rightarrow> (int \<times> int) prog" where
  \<comment> \<open>\<open>VE\<close> is a local of the function; \<open>VE.get(sym, None)\<close> is \<open>VE sym\<close>\<close>
  "call_steric_and_lps a =
     (let sym = Symbol a in
      bind (ret (VE sym)) (\<lambda>ve.
        case ve of
          None \<Rightarrow> raise (ValueError (''Valence electrons unknown for '' @ sym))
        | Some ve \<Rightarrow>
            (let sigma = TotalDegree a;
                 bond_order_sum = sum_list (BondTypesAsDouble a);
                 lps = (ve - FormalCharge a - py_int bond_order_sum) div 2;
                 steric = sigma + lps
             in ret (steric, lps))))"

definition call_predict_hybridisation :: "atom \<Rightarrow> string prog" where
  "call_predict_hybridisation a = raise NotImplementedError"

definition challenge_cell :: "unit prog" where
  \<comment> \<open>\<open>ELECTRONEGATIVITY.update({'Li': 0.98, 'Sr': 0.95, 'B': 2.04, 'Se': 2.55, 'Te': 2.10})\<close>\<close>
  "challenge_cell =
     update_ELECTRONEGATIVITY
       [''Li'' \<mapsto> double 0.98, ''Sr'' \<mapsto> double 0.95, ''B'' \<mapsto> double 2.04,
        ''Se'' \<mapsto> double 2.55, ''Te'' \<mapsto> double 2.10]"

datatype call =
    Call_geometry_from_counts int int
  | Call_steric_and_lps atom
  | Call_predict_hybridisation atom
  | Call_en_diff string string
  | Call_classify_bond "real option"

datatype py_value =
    Str string
  | Tuple int int
  | Float_or_None "real option"

fun exec :: "call \<Rightarrow> py_value prog" where
  "exec (Call_geometry_from_counts steric lps) =
     bind (call_geometry_from_counts steric lps) (\<lambda>geom. ret (Str geom))"
| "exec (Call_steric_and_lps a) =
     bind (call_steric_and_lps a) (\<lambda>(steric, lps). ret (Tuple steric lps))"
| "exec (Call_predict_hybridisation a) =
     bind (call_predict_hybridisation a) (\<lambda>h. ret (Str h))"
| "exec (Call_en_diff sym1 sym2) =
     bind (call_en_diff sym1 sym2) (\<lambda>delta. ret (Float_or_None delta))"
| "exec (Call_classify_bond delta) =
     bind (call_classify_bond delta) (\<lambda>label. ret (Str label))"

definition preserves :: "'a prog \<Rightarrow> bool" where
  \<comment> \<open>the piece leaves every state as it found it\<close>
  "preserves p \<longleftrightarrow> (\<forall>g. snd (p g) = g)"

section \<open>The operations as the specification words them\<close>

text \<open>
  The specification's \<open>derive_steric_profile\<close> rounds the bond-order sum and truncates
  the quotient toward zero; its \<open>classify_hybridization\<close> is a five-entry table with an
  \<open>unknown\<close> default. They are written down here as the specification states them, to be
  compared with \<open>steric_and_lps\<close> and \<open>predict_hybridisation\<close>.
\<close>

definition spec_derive_steric_profile :: "int \<Rightarrow> int \<Rightarrow> real \<Rightarrow> int \<Rightarrow> int \<times> int" where
  "spec_derive_steric_profile valence_electrons formal_charge bond_order_sum sigma_bonds =
     (let lone_pairs =
            py_int (real_of_int (valence_electrons - formal_charge - round bond_order_sum) / 2);
          steric_number = sigma_bonds + lone_pairs
      in (steric_number, lone_pairs))"

definition spec_profile_of_atom :: "int \<Rightarrow> atom \<Rightarrow> int \<times> int" where
  \<comment> \<open>the specification's formula on the quantities the code reads from an atom\<close>
  "spec_profile_of_atom ve a =
     spec_derive_steric_profile ve (FormalCharge a) (sum_list (BondTypesAsDouble a))
       (TotalDegree a)"

definition superscript_two :: string where
  \<comment> \<open>U+00B2\<close>
  "superscript_two = [CHR 0xC2, CHR 0xB2]"

definition superscript_three :: string where
  \<comment> \<open>U+00B3\<close>
  "superscript_three = [CHR 0xC2, CHR 0xB3]"

definition spec_classify_hybridization :: "int \<Rightarrow> string" where
  "spec_classify_hybridization steric_number =
     (if steric_number = 2 then ''sp''
      else if steric_number = 3 then ''sp'' @ superscript_two
      else if steric_number = 4 then ''sp'' @ superscript_three
      else if steric_number = 5 then ''sp'' @ superscript_three @ ''d''
      else if steric_number = 6 then ''sp'' @ superscript_three @ ''d'' @ superscript_two
      else ''unknown'')"

section \<open>Sample inputs\<close>

definition water_oxygen :: atom where
  \<comment> \<open>the oxygen of \<open>O\<close> after \<open>AddHs\<close>: two single bonds\<close>
  "water_oxygen = \<lparr>Symbol = ''O'', FormalCharge = 0, TotalDegree = 2,
                    BondTypesAsDouble = [1, 1]\<rparr>"

definition methane_carbon :: atom where
  "methane_carbon = \<lparr>Symbol = ''C'', FormalCharge = 0, TotalDegree = 4,
                      BondTypesAsDouble = [1, 1, 1, 1]\<rparr>"

definition methyl_radical_carbon :: atom where
  \<comment> \<open>the carbon of \<open>[CH3]\<close>: three single bonds and one unpaired electron\<close>
  "methyl_radical_carbon = \<lparr>Symbol = ''C'', FormalCharge = 0, TotalDegree = 3,
                             BondTypesAsDouble = [1, 1, 1]\<rparr>"

definition bridging_hydrogen :: atom where
  \<comment> \<open>a hydrogen drawn with two single bonds\<close>
  "bridging_hydrogen = \<lparr>Symbol = ''H'', FormalCharge = 0, TotalDegree = 2,
                         BondTypesAsDouble = [1, 1]\<rparr>"

definition heptavalent_phosphorus :: atom where
  \<comment> \<open>the phosphorus of \<open>FP(F)(F)(F)(F)(F)F\<close>: seven single bonds\<close>
  "heptavalent_phosphorus = \<lparr>Symbol = ''P'', FormalCharge = 0, TotalDegree = 7,
                              BondTypesAsDouble = [1, 1, 1, 1, 1, 1, 1]\<rparr>"

definition half_order_nitrogen :: atom where
  \<comment> \<open>a nitrogen with one bond of order 1.5 and two single bonds\<close>
  "half_order_nitrogen = \<lparr>Symbol = ''N'', FormalCharge = 0, TotalDegree = 3,
                           BondTypesAsDouble = [1.5, 1, 1]\<rparr>"

definition sodium :: atom where
  \<comment> \<open>the sodium of \<open>[Na]Cl\<close>; \<open>Na\<close> has no entry in \<open>VE\<close>\<close>
  "sodium = \<lparr>Symbol = ''Na'', FormalCharge = 0, TotalDegree = 1,
              BondTypesAsDouble = [1]\<rparr>"

definition sample_rms :: "nat \<Rightarrow> nat \<Rightarrow> nat \<Rightarrow> unit + int \<times> nat" where
  \<comment> \<open>a routine whose value depends on how often it has been called\<close>
  "sample_rms calls prb ref = Inr (int prb - int ref + int calls, Suc calls)"

section \<open>The geometry table\<close>

text \<open>
  Claim C1. On each of the thirteen keys of the geometry table, \<open>geometry_from_counts\<close>
  returns the label stored under that key (the two bent geometries are spelled
  \<open>bent (120\<degree>)\<close> and \<open>bent (109\<degree>)\<close> in the code); on every other pair of integers it
  returns \<open>unknown\<close>, which is none of the thirteen labels. The function is total: it
  never raises.
\<close>

theorem geometry_from_counts_table:
  "geometry_from_counts notebook 2 0 = ''linear''
   \<and> geometry_from_counts notebook 3 0 = ''trigonal planar''
   \<and> geometry_from_counts notebook 3 1 = ''bent (120'' @ degree_sign @ '')''
   \<and> geometry_from_counts notebook 4 0 = ''tetrahedral''
   \<and> geometry_from_counts notebook 4 1 = ''trigonal pyramidal''
   \<and> geometry_from_counts notebook 4 2 = ''bent (109'' @ degree_sign @ '')''
   \<and> geometry_from_counts notebook 5 0 = ''trigonal bipyramidal''
   \<and> geometry_from_counts notebook 5 1 = ''seesaw''
   \<and> geometry_from_counts notebook 5 2 = ''T-shaped''
   \<and> geometry_from_counts notebook 5 3 = ''linear''
   \<and> geometry_from_counts notebook 6 0 = ''octahedral''
   \<and> geometry_from_counts notebook 6 1 = ''square pyramidal''
   \<and> geometry_from_counts notebook 6 2 = ''square planar''
   \<and> (\<forall>steric lps.
          (steric, lps) \<notin> {(2, 0), (3, 0), (3, 1), (4, 0), (4, 1), (4, 2), (5, 0), (5, 1),
                            (5, 2), (5, 3), (6, 0), (6, 1), (6, 2)}
          \<longrightarrow> geometry_from_counts notebook steric lps = ''unknown'')
   \<and> (\<forall>steric lps.
          (steric, lps) \<in> {(2, 0), (3, 0), (3, 1), (4, 0), (4, 1), (4, 2), (5, 0), (5, 1),
                            (5, 2), (5, 3), (6, 0), (6, 1), (6, 2)}
          \<longrightarrow> geometry_from_counts notebook steric lps \<noteq> ''unknown'')"
  by (simp add: geometry_from_counts_def notebook_def degree_sign_def)

theorem geometry_from_counts_table_witness:
  "((2, 1) :: int \<times> int) \<notin> {(2, 0), (3, 0), (3, 1), (4, 0), (4, 1), (4, 2), (5, 0), (5, 1),
                (5, 2), (5, 3), (6, 0), (6, 1), (6, 2)}
   \<and> geometry_from_counts notebook 2 1 = ''unknown''
   \<and> geometry_from_counts notebook 7 0 = ''unknown''
   \<and> geometry_from_counts notebook 4 2 \<noteq> ''unknown''"
proof -
  let ?K = "{(2, 0), (3, 0), (3, 1), (4, 0), (4, 1), (4, 2), (5, 0), (5, 1),
             (5, 2), (5, 3), (6, 0), (6, 1), (6, 2)} :: (int \<times> int) set"
  note t = geometry_from_counts_table
  have out: "\<forall>steric lps. (steric, lps) \<notin> ?K \<longrightarrow> geometry_from_counts notebook steric lps = ''unknown''"
    using t by (elim conjE)
  have inn: "\<forall>steric lps. (steric, lps) \<in> ?K \<longrightarrow> geometry_from_counts notebook steric lps \<noteq> ''unknown''"
    using t by (elim conjE)
  have k1: "(2, 1) \<notin> ?K" and k2: "(7, 0) \<notin> ?K" and k3: "(4, 2) \<in> ?K"
    by simp_all
  from out k1 have a: "geometry_from_counts notebook 2 1 = ''unknown''" by (elim allE impE)
  from out k2 have b: "geometry_from_counts notebook 7 0 = ''unknown''" by (elim allE impE)
  from inn k3 have c: "geometry_from_counts notebook 4 2 \<noteq> ''unknown''" by (elim allE impE)
  from a b c k1 show ?thesis by (intro conjI)
qed

section \<open>Double rounding\<close>

lemma powi2_Suc: "(2::real) powi (k + 1) = 2 * 2 powi k"
  by (simp add: power_int_add)

lemma powi2_pred: "(2::real) powi (k - 1) = 2 powi k / 2"
  by (simp add: power_int_diff)

lemma exponent_bounds:
  "0 < x \<Longrightarrow> 2 powi (exponent x) \<le> x \<and> x < 2 powi (exponent x + 1)"
proof (induction x rule: exponent.induct)
  case (1 x)
  show ?case
  proof (cases "2 \<le> x")
    case True
    with 1 have ih: "2 powi (exponent (x / 2)) \<le> x / 2 \<and> x / 2 < 2 powi (exponent (x / 2) + 1)"
      by simp
    from True 1 have e: "exponent x = exponent (x / 2) + 1"
      by (simp add: exponent.simps [of x])
    from ih show ?thesis
      unfolding e powi2_Suc by linarith
  next
    case False
    show ?thesis
    proof (cases "x < 1")
      case True
      with False 1
      have ih: "2 powi (exponent (x * 2)) \<le> x * 2 \<and> x * 2 < 2 powi (exponent (x * 2) + 1)"
        by simp
      from True False 1 have e: "exponent x = exponent (x * 2) - 1"
        by (simp add: exponent.simps [of x])
      have s: "exponent (x * 2) - 1 + 1 = exponent (x * 2)" by simp
      from ih show ?thesis
        unfolding e s powi2_pred powi2_Suc by linarith
    next
      case ge: False
      with False 1 have "exponent x = 0"
        by (simp add: exponent.simps [of x])
      with False ge show ?thesis
        by simp
    qed
  qed
qed

lemma round_half_even_error: "\<bar>of_int (round_half_even x) - x\<bar> \<le> 1 / 2"
proof -
  have "of_int \<lfloor>x\<rfloor> \<le> x" and "x < of_int \<lfloor>x\<rfloor> + 1"
    by linarith+
  then show ?thesis
    unfolding round_half_even_def Let_def by (simp split: if_splits)
qed

text \<open>
  \<open>double x\<close> is a whole multiple of the unit in the last place of the binade of \<open>x\<close>
  and lies within half a unit of \<open>x\<close>.
\<close>

lemma double_error:
  assumes "x \<noteq> 0"
  shows "\<bar>double x - x\<bar> \<le> 2 powi (exponent \<bar>x\<bar> - 52) / 2"
proof -
  define u :: real where "u = 2 powi (exponent \<bar>x\<bar> - 52)"
  have u: "0 < u" by (simp add: u_def)
  have d: "double x = of_int (round_half_even (x / u)) * u"
    using assms by (simp add: double_def u_def Let_def)
  have "double x - x = (of_int (round_half_even (x / u)) - x / u) * u"
    using u by (simp add: d left_diff_distrib)
  then have "\<bar>double x - x\<bar> = \<bar>of_int (round_half_even (x / u)) - x / u\<bar> * u"
    using u by (simp add: abs_mult)
  also have "\<dots> \<le> (1 / 2) * u"
    using u round_half_even_error [of "x / u"] by (intro mult_right_mono) simp_all
  finally show ?thesis by (simp add: u_def)
qed

lemma double_values:
  "double 3.04 = 3422735716801577 / 2 ^ 50"
  "double 3.44 = 7746191359077253 / 2 ^ 51"
  "double 0.4 = 3602879701896397 / 2 ^ 53"
  "double 1.7 = 7656119366529843 / 2 ^ 52"
  "double 0.93 = 8376695306909123 / 2 ^ 53"
  "double 3.16 = 889460926405673 / 2 ^ 48"
  "double 2.20 = 2476979795053773 / 2 ^ 50"
  "double 2.55 = 2871044762448691 / 2 ^ 50"
  by (simp_all add: double_def exponent.simps round_half_even_def Let_def)

lemma double_differences:
  "double (3422735716801577 / 2 ^ 50 - 7746191359077253 / 2 ^ 51) = - (900719925474099 / 2 ^ 51)"
  "double (8376695306909123 / 2 ^ 53 - 889460926405673 / 2 ^ 48) = - (5021513584518103 / 2 ^ 51)"
  "double (2476979795053773 / 2 ^ 50 - 889460926405673 / 2 ^ 48) = - (1080863910568919 / 2 ^ 50)"
  "double (2871044762448691 / 2 ^ 50 - 2476979795053773 / 2 ^ 50) = 197032483697459 / 2 ^ 49"
  by (simp_all add: double_def exponent.simps round_half_even_def Let_def)

section \<open>Bond polarity by thresholds\<close>

lemma en_diff_Some:
  "ELECTRONEGATIVITY g sym1 = Some x1 \<Longrightarrow> ELECTRONEGATIVITY g sym2 = Some x2
   \<Longrightarrow> en_diff g sym1 sym2 = Some \<bar>double (x1 - x2)\<bar>"
  by (simp add: en_diff_def)

lemma en_diff_None:
  "ELECTRONEGATIVITY g sym1 = None \<or> ELECTRONEGATIVITY g sym2 = None
   \<Longrightarrow> en_diff g sym1 sym2 = None"
  by (auto simp: en_diff_def split: option.splits)

lemma classify_bond_Some_not_unknown: "classify_bond (Some d) \<noteq> ''unknown''"
  by (simp add: classify_bond_def)

lemma notebook_entries:
  "ELECTRONEGATIVITY notebook ''H'' = Some (double 2.20)"
  "ELECTRONEGATIVITY notebook ''C'' = Some (double 2.55)"
  "ELECTRONEGATIVITY notebook ''N'' = Some (double 3.04)"
  "ELECTRONEGATIVITY notebook ''O'' = Some (double 3.44)"
  "ELECTRONEGATIVITY notebook ''Cl'' = Some (double 3.16)"
  "ELECTRONEGATIVITY notebook ''Na'' = Some (double 0.93)"
  by (simp_all add: notebook_def)

lemma en_diff_N_O: "en_diff notebook ''N'' ''O'' = Some (900719925474099 / 2 ^ 51)"
  using en_diff_Some [OF notebook_entries(3) notebook_entries(4)]
  unfolding double_values double_differences by simp

lemma en_diff_Na_Cl: "en_diff notebook ''Na'' ''Cl'' = Some (5021513584518103 / 2 ^ 51)"
  using en_diff_Some [OF notebook_entries(6) notebook_entries(5)]
  unfolding double_values double_differences by simp

lemma en_diff_H_Cl: "en_diff notebook ''H'' ''Cl'' = Some (1080863910568919 / 2 ^ 50)"
  using en_diff_Some [OF notebook_entries(1) notebook_entries(5)]
  unfolding double_values double_differences by simp

lemma en_diff_C_H: "en_diff notebook ''C'' ''H'' = Some (197032483697459 / 2 ^ 49)"
  using en_diff_Some [OF notebook_entries(2) notebook_entries(1)]
  unfolding double_values double_differences by simp

text \<open>
  The three pairs the specification lists get the labels it lists: Na and Cl differ
  by 2.23, H and Cl by 0.96, C and H by 0.35.
\<close>

lemma classify_bond_examples:
  "classify_bond (en_diff notebook ''Na'' ''Cl'') = ''ionic''"
  "classify_bond (en_diff notebook ''H'' ''Cl'') = ''polar covalent''"
  "classify_bond (en_diff notebook ''C'' ''H'') = ''non'' @ nb_hyphen @ ''polar covalent''"
  unfolding en_diff_Na_Cl en_diff_H_Cl en_diff_C_H classify_bond_def double_values
  by simp_all

text \<open>
  Claim C2 says that the absolute difference of two electronegativities is classified
  by the thresholds 1.7 and 0.4, a difference of exactly 0.4 being \<open>polar covalent\<close>.
  The code does not do so for nitrogen and oxygen. Their table entries, 3.04 and 3.44,
  differ by exactly 0.4, but the doubles that the literals denote differ by
  \<open>900719925474099 / 2 ^ 51\<close>, which the subtraction returns unchanged and which is
  below the double that the literal \<open>0.4\<close> denotes (and below 0.4). \<open>delta >= 0.4\<close> is
  false, and \<open>classify_bond\<close> returns the non-polar label.
\<close>

theorem classify_bond_N_O_non_polar:
  "ELECTRONEGATIVITY notebook ''N'' = Some (double 3.04)
   \<and> ELECTRONEGATIVITY notebook ''O'' = Some (double 3.44)
   \<and> \<bar>3.04 - 3.44 :: real\<bar> = 0.4
   \<and> en_diff notebook ''N'' ''O'' = Some (900719925474099 / 2 ^ 51)
   \<and> (900719925474099 / 2 ^ 51 :: real) < double 0.4
   \<and> (900719925474099 / 2 ^ 51 :: real) < 0.4
   \<and> classify_bond (en_diff notebook ''N'' ''O'') = ''non'' @ nb_hyphen @ ''polar covalent''"
proof -
  have below: "(900719925474099 / 2 ^ 51 :: real) < double 0.4"
    unfolding double_values by simp
  have label: "classify_bond (en_diff notebook ''N'' ''O'')
                 = ''non'' @ nb_hyphen @ ''polar covalent''"
    unfolding en_diff_N_O classify_bond_def double_values by simp
  have exact: "\<bar>3.04 - 3.44 :: real\<bar> = 0.4"
    and below': "(900719925474099 / 2 ^ 51 :: real) < 0.4"
    by simp_all
  from notebook_entries(3) notebook_entries(4) exact en_diff_N_O below below' label
  show ?thesis by (intro conjI)
qed

text \<open>
  Claim C6. When at least one of the two symbols has no entry in the electronegativity
  table, \<open>en_diff\<close> returns \<open>None\<close> and \<open>classify_bond\<close> returns \<open>unknown\<close>; no exception
  leaves either function. When both symbols have entries the label is not \<open>unknown\<close>.
\<close>

theorem classify_bond_unknown_symbol:
  "(ELECTRONEGATIVITY g sym1 = None \<or> ELECTRONEGATIVITY g sym2 = None
      \<longrightarrow> en_diff g sym1 sym2 = None
          \<and> classify_bond (en_diff g sym1 sym2) = ''unknown'')
   \<and> (ELECTRONEGATIVITY g sym1 \<noteq> None \<and> ELECTRONEGATIVITY g sym2 \<noteq> None
      \<longrightarrow> classify_bond (en_diff g sym1 sym2) \<noteq> ''unknown'')"
proof (intro conjI impI)
  assume miss: "ELECTRONEGATIVITY g sym1 = None \<or> ELECTRONEGATIVITY g sym2 = None"
  then show n: "en_diff g sym1 sym2 = None" by (rule en_diff_None)
  show "classify_bond (en_diff g sym1 sym2) = ''unknown''"
    unfolding n by (simp add: classify_bond_def)
next
  assume "ELECTRONEGATIVITY g sym1 \<noteq> None \<and> ELECTRONEGATIVITY g sym2 \<noteq> None"
  then obtain x1 x2 where "ELECTRONEGATIVITY g sym1 = Some x1" "ELECTRONEGATIVITY g sym2 = Some x2"
    by auto
  then have "en_diff g sym1 sym2 = Some \<bar>double (x1 - x2)\<bar>" by (rule en_diff_Some)
  then show "classify_bond (en_diff g sym1 sym2) \<noteq> ''unknown''"
    by (simp add: classify_bond_Some_not_unknown)
qed

theorem classify_bond_unknown_symbol_witness:
  "ELECTRONEGATIVITY notebook ''Xx'' = None
   \<and> ELECTRONEGATIVITY notebook ''Cl'' \<noteq> None
   \<and> ELECTRONEGATIVITY notebook ''Na'' \<noteq> None
   \<and> classify_bond (en_diff notebook ''Xx'' ''Cl'') = ''unknown''
   \<and> classify_bond (en_diff notebook ''Cl'' ''Xx'') = ''unknown''
   \<and> classify_bond (en_diff notebook ''Na'' ''Cl'') \<noteq> ''unknown''"
proof -
  have xx: "ELECTRONEGATIVITY notebook ''Xx'' = None"
    and cl: "ELECTRONEGATIVITY notebook ''Cl'' \<noteq> None"
    and na: "ELECTRONEGATIVITY notebook ''Na'' \<noteq> None"
    by (simp_all add: notebook_def)
  from xx classify_bond_unknown_symbol [of notebook "''Xx''" "''Cl''"]
  have 1: "classify_bond (en_diff notebook ''Xx'' ''Cl'') = ''unknown''" by blast
  from xx classify_bond_unknown_symbol [of notebook "''Cl''" "''Xx''"]
  have 2: "classify_bond (en_diff notebook ''Cl'' ''Xx'') = ''unknown''" by blast
  from na cl classify_bond_unknown_symbol [of notebook "''Na''" "''Cl''"]
  have 3: "classify_bond (en_diff notebook ''Na'' ''Cl'') \<noteq> ''unknown''" by blast
  from xx cl na 1 2 3 show ?thesis by (intro conjI)
qed

section \<open>Steric number and lone pairs\<close>

lemma steric_and_lps_supported:
  "VE (Symbol a) = Some ve \<Longrightarrow>
   steric_and_lps a =
     Inr (TotalDegree a + (ve - FormalCharge a - py_int (sum_list (BondTypesAsDouble a))) div 2,
          (ve - FormalCharge a - py_int (sum_list (BondTypesAsDouble a))) div 2)"
  by (simp add: steric_and_lps_def Let_def)

lemma steric_and_lps_raises:
  "VE (Symbol a) = None \<Longrightarrow>
   steric_and_lps a = Inl (ValueError (''Valence electrons unknown for '' @ Symbol a))"
  by (simp add: steric_and_lps_def Let_def)

lemma py_int_of_int: "py_int (real_of_int k) = k"
  by (simp add: py_int_def)

lemma floor_half: "\<lfloor>real_of_int n / 2\<rfloor> = n div 2"
  using floor_divide_of_int_eq [of n 2] by simp

lemma py_int_half_nonneg: "0 \<le> n \<Longrightarrow> py_int (real_of_int n / 2) = n div 2"
  by (simp add: py_int_def floor_half)

text \<open>
  Claim C3 is refuted as stated. A hydrogen drawn with two single bonds has
  \<open>1 - 0 - 2 = -1\<close> electrons left: the code's floor division gives \<open>-1\<close> lone pairs,
  truncation toward zero gives \<open>0\<close>. A nitrogen whose bond orders sum to \<open>3.5\<close> has that
  sum cut to \<open>3\<close> by \<open>int\<close>, not rounded to \<open>4\<close>.
\<close>

theorem steric_and_lps_differs_from_spec_formula:
  "VE (Symbol bridging_hydrogen) = Some 1
   \<and> steric_and_lps bridging_hydrogen = Inr (1, - 1)
   \<and> spec_profile_of_atom 1 bridging_hydrogen = (2, 0)
   \<and> VE (Symbol half_order_nitrogen) = Some 5
   \<and> steric_and_lps half_order_nitrogen = Inr (4, 1)
   \<and> spec_profile_of_atom 5 half_order_nitrogen = (3, 0)"
  by (simp add: steric_and_lps_def spec_profile_of_atom_def spec_derive_steric_profile_def
      Let_def bridging_hydrogen_def half_order_nitrogen_def VE_def py_int_def ceiling_def
      round_def)

text \<open>
  Claim C3 as amended. For an atom of a supported element, \<open>steric_and_lps\<close> returns
  \<open>lone_pairs = floor((valence_electrons - formal_charge - int(bond_order_sum)) / 2)\<close>,
  where \<open>int\<close> cuts the bond-order sum toward zero, and
  \<open>steric_number = sigma_bonds + lone_pairs\<close>. When the bond-order sum is a whole number
  \<open>k\<close> and \<open>valence_electrons - formal_charge - k\<close> is not negative, this is the value of
  the specification's formula.
\<close>

theorem steric_and_lps_floor_formula:
  assumes "VE (Symbol a) = Some ve"
  shows "steric_and_lps a =
           Inr (TotalDegree a
                  + \<lfloor>real_of_int (ve - FormalCharge a - py_int (sum_list (BondTypesAsDouble a))) / 2\<rfloor>,
                \<lfloor>real_of_int (ve - FormalCharge a - py_int (sum_list (BondTypesAsDouble a))) / 2\<rfloor>)
         \<and> (sum_list (BondTypesAsDouble a) = real_of_int k \<and> 0 \<le> ve - FormalCharge a - k
              \<longrightarrow> steric_and_lps a = Inr (spec_profile_of_atom ve a))"
proof (intro conjI impI)
  show "steric_and_lps a =
           Inr (TotalDegree a
                  + \<lfloor>real_of_int (ve - FormalCharge a - py_int (sum_list (BondTypesAsDouble a))) / 2\<rfloor>,
                \<lfloor>real_of_int (ve - FormalCharge a - py_int (sum_list (BondTypesAsDouble a))) / 2\<rfloor>)"
    unfolding floor_half using assms by (rule steric_and_lps_supported)
next
  assume whole: "sum_list (BondTypesAsDouble a) = real_of_int k \<and> 0 \<le> ve - FormalCharge a - k"
  then have bos: "sum_list (BondTypesAsDouble a) = real_of_int k"
    and nonneg: "0 \<le> ve - FormalCharge a - k"
    by simp_all
  have code: "steric_and_lps a =
      Inr (TotalDegree a + (ve - FormalCharge a - k) div 2, (ve - FormalCharge a - k) div 2)"
    using steric_and_lps_supported [OF assms] by (simp add: bos py_int_of_int)
  have spec: "spec_profile_of_atom ve a =
      (TotalDegree a + (ve - FormalCharge a - k) div 2, (ve - FormalCharge a - k) div 2)"
    unfolding spec_profile_of_atom_def spec_derive_steric_profile_def Let_def bos round_of_int
      py_int_half_nonneg [OF nonneg]
    by (rule refl)
  show "steric_and_lps a = Inr (spec_profile_of_atom ve a)"
    by (simp add: code spec)
qed

theorem steric_and_lps_floor_formula_witness:
  "VE (Symbol water_oxygen) = Some 6
   \<and> sum_list (BondTypesAsDouble water_oxygen) = real_of_int 2
   \<and> 0 \<le> 6 - FormalCharge water_oxygen - 2
   \<and> steric_and_lps water_oxygen = Inr (spec_profile_of_atom 6 water_oxygen)
   \<and> steric_and_lps water_oxygen = Inr (4, 2)"
proof -
  have ve: "VE (Symbol water_oxygen) = Some 6"
    by (simp add: water_oxygen_def VE_def)
  have bos: "sum_list (BondTypesAsDouble water_oxygen) = real_of_int 2"
    by (simp add: water_oxygen_def)
  have nonneg: "0 \<le> 6 - FormalCharge water_oxygen - 2"
    by (simp add: water_oxygen_def)
  note t = steric_and_lps_floor_formula [OF ve, of 2]
  from t bos nonneg have 1: "steric_and_lps water_oxygen = Inr (spec_profile_of_atom 6 water_oxygen)"
    by blast
  from t have "steric_and_lps water_oxygen =
           Inr (TotalDegree water_oxygen
                  + \<lfloor>real_of_int (6 - FormalCharge water_oxygen
                        - py_int (sum_list (BondTypesAsDouble water_oxygen))) / 2\<rfloor>,
                \<lfloor>real_of_int (6 - FormalCharge water_oxygen
                        - py_int (sum_list (BondTypesAsDouble water_oxygen))) / 2\<rfloor>)"
    by (rule conjunct1)
  then have 2: "steric_and_lps water_oxygen = Inr (4, 2)"
    by (simp add: water_oxygen_def py_int_def)
  from ve bos nonneg 1 2 show ?thesis by (intro conjI)
qed

text \<open>
  Claim C5. For an atom whose symbol has no entry in \<open>VE\<close>, \<open>steric_and_lps\<close> raises
  \<open>ValueError\<close> with the message \<open>Valence electrons unknown for\<close> followed by the symbol;
  it returns no pair, sentinel or other.
\<close>

theorem steric_and_lps_unsupported_element:
  assumes "VE (Symbol a) = None"
  shows "steric_and_lps a = Inl (ValueError (''Valence electrons unknown for '' @ Symbol a))
         \<and> (\<forall>steric lps. steric_and_lps a \<noteq> Inr (steric, lps))"
  using steric_and_lps_raises [OF assms] by simp

theorem steric_and_lps_unsupported_element_witness:
  "VE (Symbol sodium) = None
   \<and> steric_and_lps sodium = Inl (ValueError ''Valence electrons unknown for Na'')
   \<and> (\<forall>steric lps. steric_and_lps sodium \<noteq> Inr (steric, lps))"
proof -
  have ve: "VE (Symbol sodium) = None"
    by (simp add: sodium_def VE_def)
  have sym: "Symbol sodium = ''Na''"
    by (simp add: sodium_def)
  from steric_and_lps_unsupported_element [OF ve] ve show ?thesis
    by (simp add: sym)
qed

text \<open>
  Claim C7 is refuted as stated. A phosphorus with seven single bonds has
  \<open>5 - 0 - 7 = -2\<close> electrons left and \<open>steric_and_lps\<close> returns \<open>-1\<close> lone pairs, with no
  error; the geometry lookup then misses. The carbon of a methyl radical has one
  electron left, half a lone pair, and \<open>steric_and_lps\<close> returns \<open>0\<close> lone pairs.
\<close>

theorem steric_and_lps_returns_negative_lone_pairs:
  "steric_and_lps heptavalent_phosphorus = Inr (6, - 1)
   \<and> geometry_from_counts notebook 6 (- 1) = ''unknown''
   \<and> steric_and_lps methyl_radical_carbon = Inr (3, 0)"
  by (simp add: steric_and_lps_def Let_def heptavalent_phosphorus_def
      methyl_radical_carbon_def VE_def py_int_def geometry_from_counts_def notebook_def)

text \<open>
  Claim C7 as amended. \<open>steric_and_lps\<close> does not check its arithmetic. For an atom of
  a supported element it always returns a pair \<open>(sigma_bonds + lone_pairs, lone_pairs)\<close>
  of integers, where, with \<open>n = valence_electrons - formal_charge - int(bond_order_sum)\<close>,
  \<open>lone_pairs\<close> is \<open>n / 2\<close> for even \<open>n\<close> and \<open>(n - 1) / 2\<close> for odd \<open>n\<close>; it is negative
  exactly when \<open>n\<close> is negative.
\<close>

theorem steric_and_lps_unguarded:
  assumes "VE (Symbol a) = Some ve"
  shows "\<exists>lps. steric_and_lps a = Inr (TotalDegree a + lps, lps)
           \<and> (lps < 0 \<longleftrightarrow>
                ve - FormalCharge a - py_int (sum_list (BondTypesAsDouble a)) < 0)
           \<and> (even (ve - FormalCharge a - py_int (sum_list (BondTypesAsDouble a)))
                \<longrightarrow> 2 * lps = ve - FormalCharge a - py_int (sum_list (BondTypesAsDouble a)))
           \<and> (odd (ve - FormalCharge a - py_int (sum_list (BondTypesAsDouble a)))
                \<longrightarrow> 2 * lps = ve - FormalCharge a - py_int (sum_list (BondTypesAsDouble a)) - 1)"
proof -
  define n where "n = ve - FormalCharge a - py_int (sum_list (BondTypesAsDouble a))"
  have ret: "steric_and_lps a = Inr (TotalDegree a + n div 2, n div 2)"
    unfolding n_def using assms by (rule steric_and_lps_supported)
  have neg: "n div 2 < 0 \<longleftrightarrow> n < 0"
    by presburger
  have ev: "even n \<longrightarrow> 2 * (n div 2) = n"
    by presburger
  have od: "odd n \<longrightarrow> 2 * (n div 2) = n - 1"
    by presburger
  from ret neg ev od show ?thesis
    unfolding n_def by blast
qed

theorem steric_and_lps_unguarded_witness:
  "VE (Symbol heptavalent_phosphorus) = Some 5
   \<and> (\<exists>lps. steric_and_lps heptavalent_phosphorus = Inr (7 + lps, lps) \<and> lps < 0)"
proof -
  have ve: "VE (Symbol heptavalent_phosphorus) = Some 5"
    by (simp add: heptavalent_phosphorus_def VE_def)
  have n: "5 - FormalCharge heptavalent_phosphorus
             - py_int (sum_list (BondTypesAsDouble heptavalent_phosphorus)) = - 2"
    by (simp add: heptavalent_phosphorus_def py_int_def)
  have d: "TotalDegree heptavalent_phosphorus = 7"
    by (simp add: heptavalent_phosphorus_def)
  from steric_and_lps_unguarded [OF ve] show ?thesis
    unfolding n d using ve by auto
qed

text \<open>
  Claim C8. An atom with six valence electrons, formal charge 0, bond orders that sum
  to 2 and two sigma bonds (the oxygen of water) gets steric number 4 and 2 lone pairs,
  and \<open>geometry_from_counts\<close> maps \<open>(4, 2)\<close> to \<open>bent (109\<degree>)\<close>.
\<close>

theorem water_like_oxygen_is_bent:
  assumes "VE (Symbol a) = Some 6" and "FormalCharge a = 0"
    and "sum_list (BondTypesAsDouble a) = 2" and "TotalDegree a = 2"
  shows "steric_and_lps a = Inr (4, 2)
         \<and> geometry_from_counts notebook 4 2 = ''bent (109'' @ degree_sign @ '')''"
proof
  show "steric_and_lps a = Inr (4, 2)"
    using steric_and_lps_supported [OF assms(1)] assms(2-4) by (simp add: py_int_def)
  show "geometry_from_counts notebook 4 2 = ''bent (109'' @ degree_sign @ '')''"
    by (simp add: geometry_from_counts_def notebook_def)
qed

theorem water_like_oxygen_is_bent_witness:
  "VE (Symbol water_oxygen) = Some 6 \<and> FormalCharge water_oxygen = 0
   \<and> sum_list (BondTypesAsDouble water_oxygen) = 2 \<and> TotalDegree water_oxygen = 2
   \<and> steric_and_lps water_oxygen = Inr (4, 2)
   \<and> geometry_from_counts notebook 4 2 = ''bent (109'' @ degree_sign @ '')''"
proof -
  have 1: "VE (Symbol water_oxygen) = Some 6"
    and 2: "FormalCharge water_oxygen = 0"
    and 3: "sum_list (BondTypesAsDouble water_oxygen) = 2"
    and 4: "TotalDegree water_oxygen = 2"
    by (simp_all add: water_oxygen_def VE_def)
  from water_like_oxygen_is_bent [OF 1 2 3 4] 1 2 3 4 show ?thesis
    by (intro conjI) simp_all
qed

section \<open>The hybridisation exercise\<close>

text \<open>
  Claim C4 says that steric numbers 2 to 6 are mapped to \<open>sp\<close>, \<open>sp\<^sup>2\<close>, \<open>sp\<^sup>3\<close>,
  \<open>sp\<^sup>3d\<close>, \<open>sp\<^sup>3d\<^sup>2\<close> and every other input to \<open>unknown\<close>, without raising. The code
  does not do so: the docstring of \<open>predict_hybridisation\<close> promises a string like
  \<open>'sp3'\<close>, the body raises. The carbon of methane has steric number 4, for which the
  specification's table gives \<open>sp\<^sup>3\<close>, and the call raises \<open>NotImplementedError\<close>; a
  hydrogen with steric number 1 does not get \<open>unknown\<close> either.
\<close>

theorem predict_hybridisation_raises_on_methane:
  "steric_and_lps methane_carbon = Inr (4, 0)
   \<and> spec_classify_hybridization 4 = ''sp'' @ superscript_three
   \<and> predict_hybridisation methane_carbon = Inl NotImplementedError
   \<and> predict_hybridisation methane_carbon \<noteq> Inr (spec_classify_hybridization 4)
   \<and> steric_and_lps bridging_hydrogen = Inr (1, - 1)
   \<and> predict_hybridisation bridging_hydrogen \<noteq> Inr ''unknown''"
  by (simp add: steric_and_lps_def Let_def methane_carbon_def bridging_hydrogen_def VE_def
      py_int_def spec_classify_hybridization_def predict_hybridisation_def)

section \<open>Purity of the classifier calls\<close>

text \<open>
  Returning, raising and the three ways of reading leave the state alone; sequencing
  and \<open>try\<close> do so when their parts do.
\<close>

lemma preserves_ret: "preserves (ret x)"
  by (simp add: preserves_def ret_def)

lemma preserves_raise: "preserves (raise e)"
  by (simp add: preserves_def raise_def)

lemma preserves_load_global: "preserves (load_global name)"
  by (simp add: preserves_def load_global_def)

lemma preserves_getitem: "preserves (getitem d k)"
  by (cases "d k") (simp_all add: getitem_def preserves_raise preserves_ret)

lemma preserves_dict_get: "preserves (dict_get d k dflt)"
  by (simp add: dict_get_def preserves_ret)

lemma preserves_bind:
  assumes "preserves m" and "\<And>x. preserves (f x)"
  shows "preserves (bind m f)"
  unfolding preserves_def
proof
  fix g
  obtain r g' where run: "m g = (r, g')" by (cases "m g")
  with assms(1) have g': "g' = g"
    by (metis preserves_def snd_conv)
  show "snd (bind m f g) = g"
  proof (cases r)
    case (Inl e)
    with run g' show ?thesis by (simp add: bind_def)
  next
    case (Inr x)
    with run g' assms(2) [of x] show ?thesis by (simp add: bind_def preserves_def)
  qed
qed

lemma preserves_try_except_KeyError:
  assumes "preserves body" and "preserves handler"
  shows "preserves (try_except_KeyError body handler)"
  unfolding preserves_def
proof
  fix g
  obtain r g' where run: "body g = (r, g')" by (cases "body g")
  with assms(1) have g': "g' = g"
    by (metis preserves_def snd_conv)
  show "snd (try_except_KeyError body handler g) = g"
  proof (cases r)
    case (Inr x)
    with run g' show ?thesis by (simp add: try_except_KeyError_def)
  next
    case (Inl e)
    with run g' assms(2) show ?thesis
      by (cases e) (simp_all add: try_except_KeyError_def preserves_def)
  qed
qed

text \<open>
  An update of the table is a piece that does not: after the challenge cell the table
  has an entry for lithium.
\<close>

lemma challenge_cell_writes:
  "\<not> preserves challenge_cell"
  "ELECTRONEGATIVITY notebook ''Li'' = None"
  "ELECTRONEGATIVITY (snd (challenge_cell notebook)) ''Li'' = Some (double 0.98)"
proof -
  show none: "ELECTRONEGATIVITY notebook ''Li'' = None"
    by (simp add: notebook_def)
  show some: "ELECTRONEGATIVITY (snd (challenge_cell notebook)) ''Li'' = Some (double 0.98)"
    by (simp add: challenge_cell_def update_ELECTRONEGATIVITY_def)
  from none some have "snd (challenge_cell notebook) \<noteq> notebook"
    by auto
  then show "\<not> preserves challenge_cell"
    by (auto simp: preserves_def)
qed

text \<open>The bodies are made of reading pieces only.\<close>

lemma preserves_call_en_diff: "preserves (call_en_diff sym1 sym2)"
  unfolding call_en_diff_def
  by (intro preserves_try_except_KeyError preserves_bind preserves_load_global
      preserves_getitem preserves_ret)

lemma preserves_call_classify_bond: "preserves (call_classify_bond delta)"
  by (cases delta) (simp_all add: call_classify_bond_def preserves_ret)

lemma preserves_call_geometry_from_counts:
  "preserves (call_geometry_from_counts steric lps)"
  unfolding call_geometry_from_counts_def
  by (intro preserves_bind preserves_load_global preserves_dict_get)

lemma preserves_call_steric_and_lps: "preserves (call_steric_and_lps a)"
proof -
  have "preserves (case ve of
          None \<Rightarrow> raise (ValueError (''Valence electrons unknown for '' @ Symbol a))
        | Some ve \<Rightarrow>
            ret (TotalDegree a
                   + (ve - FormalCharge a - py_int (sum_list (BondTypesAsDouble a))) div 2,
                 (ve - FormalCharge a - py_int (sum_list (BondTypesAsDouble a))) div 2))"
    for ve
    by (cases ve) (simp_all add: preserves_raise preserves_ret)
  then show ?thesis
    unfolding call_steric_and_lps_def Let_def
    by (intro preserves_bind preserves_ret)
qed

lemma preserves_call_predict_hybridisation: "preserves (call_predict_hybridisation a)"
  by (simp add: call_predict_hybridisation_def preserves_raise)

lemma preserves_exec: "preserves (exec c)"
proof (cases c)
  case (Call_geometry_from_counts steric lps)
  then show ?thesis
    by (simp add: preserves_bind preserves_call_geometry_from_counts preserves_ret)
next
  case (Call_steric_and_lps a)
  then show ?thesis
    by (simp add: preserves_bind preserves_call_steric_and_lps preserves_ret split_def)
next
  case (Call_predict_hybridisation a)
  then show ?thesis
    by (simp add: preserves_bind preserves_call_predict_hybridisation preserves_ret)
next
  case (Call_en_diff sym1 sym2)
  then show ?thesis
    by (simp add: preserves_bind preserves_call_en_diff preserves_ret)
next
  case (Call_classify_bond delta)
  then show ?thesis
    by (simp add: preserves_bind preserves_call_classify_bond preserves_ret)
qed

text \<open>What the bodies return is what the functions of the earlier sections compute.\<close>

lemma call_en_diff_result: "call_en_diff sym1 sym2 g = (Inr (en_diff g sym1 sym2), g)"
  by (simp add: call_en_diff_def en_diff_def try_except_KeyError_def bind_def load_global_def
      getitem_def ret_def raise_def split: option.splits)

lemma call_classify_bond_result: "call_classify_bond delta g = (Inr (classify_bond delta), g)"
  by (simp add: call_classify_bond_def classify_bond_def ret_def split: option.splits)

lemma call_geometry_from_counts_result:
  "call_geometry_from_counts steric lps g = (Inr (geometry_from_counts g steric lps), g)"
  by (simp add: call_geometry_from_counts_def geometry_from_counts_def bind_def
      load_global_def dict_get_def ret_def)

lemma call_steric_and_lps_result: "call_steric_and_lps a g = (steric_and_lps a, g)"
  by (simp add: call_steric_and_lps_def steric_and_lps_def Let_def bind_def ret_def raise_def
      split: option.splits)

lemma call_predict_hybridisation_result:
  "call_predict_hybridisation a g = (predict_hybridisation a, g)"
  by (simp add: call_predict_hybridisation_def predict_hybridisation_def raise_def)

text \<open>
  Claim C9. A call of \<open>geometry_from_counts\<close>, \<open>steric_and_lps\<close>,
  \<open>predict_hybridisation\<close>, \<open>en_diff\<close> or \<open>classify_bond\<close> leaves the module-level tables
  as it found them, and the same call made again, in the state the first call left,
  returns or raises the same as the first.
\<close>

theorem exec_pure:
  "snd (exec c g) = g
   \<and> ELECTRONEGATIVITY (snd (exec c g)) = ELECTRONEGATIVITY g
   \<and> GEOM_MAP (snd (exec c g)) = GEOM_MAP g
   \<and> fst (exec c (snd (exec c g))) = fst (exec c g)"
proof -
  from preserves_exec [of c] have "snd (exec c g) = g"
    by (simp add: preserves_def)
  then show ?thesis by simp
qed

theorem exec_pure_witness:
  "exec (Call_en_diff ''Na'' ''Cl'') notebook
     = (Inr (Float_or_None (Some (5021513584518103 / 2 ^ 51))), notebook)
   \<and> fst (exec (Call_en_diff ''Na'' ''Cl'') (snd (exec (Call_en_diff ''Na'' ''Cl'') notebook)))
       = Inr (Float_or_None (Some (5021513584518103 / 2 ^ 51)))"
proof -
  have run: "exec (Call_en_diff ''Na'' ''Cl'') notebook
               = (Inr (Float_or_None (Some (5021513584518103 / 2 ^ 51))), notebook)"
    by (simp add: bind_def ret_def call_en_diff_result en_diff_Na_Cl)
  from exec_pure [of "Call_en_diff ''Na'' ''Cl''" notebook]
  have "fst (exec (Call_en_diff ''Na'' ''Cl'') (snd (exec (Call_en_diff ''Na'' ''Cl'') notebook)))
          = fst (exec (Call_en_diff ''Na'' ''Cl'') notebook)"
    by (elim conjE)
  with run show ?thesis
    by (simp only: fst_conv simp_thms)
qed

section \<open>The RMSD matrix\<close>

lemma length_set_item: "length (set_item mat i j v) = length mat"
  by (simp add: set_item_def)

lemma length_row_set_item: "length (set_item mat i j v ! a) = length (mat ! a)"
  by (cases "i < length mat"; cases "a = i") (simp_all add: set_item_def list_update_beyond)

lemma nth_set_item:
  assumes "a < length mat" and "b < length (mat ! a)"
  shows "set_item mat i j v ! a ! b = (if a = i \<and> b = j then v else mat ! a ! b)"
proof (cases "a = i")
  case True
  with assms show ?thesis
    by (simp add: set_item_def nth_list_update)
next
  case False
  then show ?thesis
    by (simp add: set_item_def)
qed

lemma nth_set_item_pair:
  assumes "length mat = n" and "\<forall>r<n. length (mat ! r) = n" and "a < n" and "b < n"
  shows "set_item (set_item mat i j v) j i v ! a ! b =
           (if (a = i \<and> b = j) \<or> (a = j \<and> b = i) then v else mat ! a ! b)"
proof -
  let ?m = "set_item mat i j v"
  have a1: "a < length ?m" and b1: "b < length (?m ! a)"
    using assms by (simp_all add: length_set_item length_row_set_item)
  have a0: "a < length mat" and b0: "b < length (mat ! a)"
    using assms by simp_all
  have e1: "set_item ?m j i v ! a ! b = (if a = j \<and> b = i then v else ?m ! a ! b)"
    using a1 b1 by (rule nth_set_item)
  have e2: "?m ! a ! b = (if a = i \<and> b = j then v else mat ! a ! b)"
    using a0 b0 by (rule nth_set_item)
  show ?thesis
    by (simp only: e1 e2 split: if_splits) blast
qed

lemma symmetric_zero_diagonal_set_pair:
  assumes inv: "symmetric_zero_diagonal n mat" and ij: "i \<noteq> j"
  shows "symmetric_zero_diagonal n (set_item (set_item mat i j v) j i v)"
proof -
  let ?m = "set_item (set_item mat i j v) j i v"
  from inv have len: "length mat = n" and rows: "\<forall>r<n. length (mat ! r) = n"
    and sym: "\<forall>a<n. \<forall>b<n. mat ! a ! b = mat ! b ! a" and diag: "\<forall>a<n. mat ! a ! a = 0"
    by (simp_all add: symmetric_zero_diagonal_def)
  have 1: "length ?m = n"
    by (simp add: length_set_item len)
  have 2: "\<forall>r<n. length (?m ! r) = n"
    by (simp add: length_row_set_item rows)
  have 3: "\<forall>a<n. \<forall>b<n. ?m ! a ! b = ?m ! b ! a"
  proof (intro allI impI)
    fix a b assume "a < n" "b < n"
    then show "?m ! a ! b = ?m ! b ! a"
      using sym by (auto simp: nth_set_item_pair [OF len rows])
  qed
  have 4: "\<forall>a<n. ?m ! a ! a = 0"
  proof (intro allI impI)
    fix a assume "a < n"
    then show "?m ! a ! a = 0"
      using diag ij by (auto simp: nth_set_item_pair [OF len rows])
  qed
  from 1 2 3 4 show ?thesis
    by (simp add: symmetric_zero_diagonal_def)
qed

lemma symmetric_zero_diagonal_zeros:
  "symmetric_zero_diagonal n (replicate n (replicate n 0))"
  by (simp add: symmetric_zero_diagonal_def)

lemma inner_loop_invariant:
  assumes "symmetric_zero_diagonal n mat" and "\<forall>j\<in>set js. j \<noteq> i"
    and "inner_loop GetBestRMS conf_ids i js mol mat = Inr (mol', mat')"
  shows "symmetric_zero_diagonal n mat'"
  using assms
proof (induction js arbitrary: mol mat)
  case Nil
  then show ?case by simp
next
  case (Cons j js)
  from Cons.prems(3) obtain v mol1
    where call: "GetBestRMS mol (conf_ids ! i) (conf_ids ! j) = Inr (v, mol1)"
      and rest: "inner_loop GetBestRMS conf_ids i js mol1
                   (set_item (set_item mat i j v) j i v) = Inr (mol', mat')"
    by (auto split: sum.splits)
  from Cons.prems(2) have "i \<noteq> j" by auto
  with Cons.prems(1)
  have "symmetric_zero_diagonal n (set_item (set_item mat i j v) j i v)"
    by (rule symmetric_zero_diagonal_set_pair)
  moreover from Cons.prems(2) have "\<forall>j\<in>set js. j \<noteq> i" by simp
  ultimately show ?case
    using rest by (rule Cons.IH)
qed

lemma outer_loop_invariant:
  assumes "symmetric_zero_diagonal n mat"
    and "outer_loop GetBestRMS conf_ids n is mol mat = Inr (mol', mat')"
  shows "symmetric_zero_diagonal n mat'"
  using assms
proof (induction "is" arbitrary: mol mat)
  case Nil
  then show ?case by simp
next
  case (Cons i "is")
  from Cons.prems(2) obtain mol1 mat1
    where row: "inner_loop GetBestRMS conf_ids i [i + 1..<n] mol mat = Inr (mol1, mat1)"
      and rest: "outer_loop GetBestRMS conf_ids n is mol1 mat1 = Inr (mol', mat')"
    by (auto split: sum.splits)
  have "\<forall>j\<in>set [i + 1..<n]. j \<noteq> i" by simp
  with Cons.prems(1) have "symmetric_zero_diagonal n mat1"
    using row by (rule inner_loop_invariant)
  then show ?case
    using rest by (rule Cons.IH)
qed

lemma inner_loop_returns:
  assumes "\<forall>m p r. \<exists>res. GetBestRMS m p r = Inr res"
  shows "\<exists>st. inner_loop GetBestRMS conf_ids i js mol mat = Inr st"
proof (induction js arbitrary: mol mat)
  case Nil
  show ?case by simp
next
  case (Cons j js)
  from assms obtain v mol1
    where call: "GetBestRMS mol (conf_ids ! i) (conf_ids ! j) = Inr (v, mol1)"
    by (metis surj_pair)
  from Cons.IH [of mol1 "set_item (set_item mat i j v) j i v"] show ?case
    by (simp add: call)
qed

lemma outer_loop_returns:
  assumes "\<forall>m p r. \<exists>res. GetBestRMS m p r = Inr res"
  shows "\<exists>st. outer_loop GetBestRMS conf_ids n is mol mat = Inr st"
proof (induction "is" arbitrary: mol mat)
  case Nil
  show ?case by simp
next
  case (Cons i "is")
  from inner_loop_returns [OF assms] obtain mol1 mat1
    where row: "inner_loop GetBestRMS conf_ids i [i + 1..<n] mol mat = Inr (mol1, mat1)"
    by (metis surj_pair)
  from Cons.IH [of mol1 mat1] show ?case
    using row by simp
qed

lemma rmsd_matrix_Inr:
  assumes "rmsd_matrix GetBestRMS mol conf_ids = Inr mat"
  shows "symmetric_zero_diagonal (length conf_ids) mat"
proof -
  let ?n = "length conf_ids"
  from assms obtain mol'
    where run: "outer_loop GetBestRMS conf_ids ?n [0..<?n] mol
                  (replicate ?n (replicate ?n 0)) = Inr (mol', mat)"
    by (auto simp: rmsd_matrix_def Let_def split: sum.splits)
  from symmetric_zero_diagonal_zeros run show ?thesis
    by (rule outer_loop_invariant)
qed

lemma rmsd_matrix_returns:
  assumes "\<forall>m p r. \<exists>res. GetBestRMS m p r = Inr res"
  shows "\<exists>mat. rmsd_matrix GetBestRMS mol conf_ids = Inr mat"
proof -
  let ?n = "length conf_ids"
  from outer_loop_returns [OF assms] obtain mol' mat
    where "outer_loop GetBestRMS conf_ids ?n [0..<?n] mol
             (replicate ?n (replicate ?n 0)) = Inr (mol', mat)"
    by (metis surj_pair)
  then show ?thesis
    by (simp add: rmsd_matrix_def Let_def)
qed

text \<open>
  Claim C10. Whatever values the alignment routine returns, a matrix returned by
  \<open>rmsd_matrix\<close> for \<open>n\<close> conformer ids has \<open>n\<close> rows of \<open>n\<close> entries, entry \<open>(i, j)\<close>
  equals entry \<open>(j, i)\<close>, and the diagonal is zero. The function returns such a matrix
  whenever no call of the routine raises.
\<close>

theorem rmsd_matrix_symmetric:
  "(\<forall>mat. rmsd_matrix GetBestRMS mol conf_ids = Inr mat \<longrightarrow>
      length mat = length conf_ids
      \<and> (\<forall>i<length conf_ids. length (mat ! i) = length conf_ids)
      \<and> (\<forall>i<length conf_ids. \<forall>j<length conf_ids. mat ! i ! j = mat ! j ! i)
      \<and> (\<forall>i<length conf_ids. mat ! i ! i = 0))
   \<and> ((\<forall>m p r. \<exists>res. GetBestRMS m p r = Inr res) \<longrightarrow>
      (\<exists>mat. rmsd_matrix GetBestRMS mol conf_ids = Inr mat))"
proof (rule conjI)
  show "\<forall>mat. rmsd_matrix GetBestRMS mol conf_ids = Inr mat \<longrightarrow>
      length mat = length conf_ids
      \<and> (\<forall>i<length conf_ids. length (mat ! i) = length conf_ids)
      \<and> (\<forall>i<length conf_ids. \<forall>j<length conf_ids. mat ! i ! j = mat ! j ! i)
      \<and> (\<forall>i<length conf_ids. mat ! i ! i = 0)"
  proof (intro allI impI)
    fix mat assume "rmsd_matrix GetBestRMS mol conf_ids = Inr mat"
    then have "symmetric_zero_diagonal (length conf_ids) mat"
      by (rule rmsd_matrix_Inr)
    then show "length mat = length conf_ids
      \<and> (\<forall>i<length conf_ids. length (mat ! i) = length conf_ids)
      \<and> (\<forall>i<length conf_ids. \<forall>j<length conf_ids. mat ! i ! j = mat ! j ! i)
      \<and> (\<forall>i<length conf_ids. mat ! i ! i = 0)"
      by (simp add: symmetric_zero_diagonal_def)
  qed
next
  show "(\<forall>m p r. \<exists>res. GetBestRMS m p r = Inr res) \<longrightarrow>
      (\<exists>mat. rmsd_matrix GetBestRMS mol conf_ids = Inr mat)"
    by (intro impI) (rule rmsd_matrix_returns)
qed

lemma sample_run:
  "rmsd_matrix sample_rms 0 [10, 20, 30] = Inr [[0, - 10, - 19], [- 10, 0, - 8], [- 19, - 8, 0]]"
  by (simp add: rmsd_matrix_def Let_def sample_rms_def set_item_def upt_rec)

theorem rmsd_matrix_symmetric_witness:
  "(\<forall>m p r. \<exists>res. sample_rms m p r = Inr res)
   \<and> rmsd_matrix sample_rms 0 [10, 20, 30]
       = Inr [[0, - 10, - 19], [- 10, 0, - 8], [- 19, - 8, 0]]
   \<and> (\<exists>mat. rmsd_matrix sample_rms 0 [10, 20, 30] = Inr mat
         \<and> length mat = 3 \<and> mat ! 0 ! 2 = mat ! 2 ! 0 \<and> mat ! 1 ! 1 = 0)"
proof -
  have total: "\<forall>m p r. \<exists>res. sample_rms m p r = Inr res"
    by (simp add: sample_rms_def)
  note t = rmsd_matrix_symmetric [of sample_rms 0 "[10, 20, 30]"]
  from t total obtain mat where ret: "rmsd_matrix sample_rms 0 [10, 20, 30] = Inr mat"
    by blast
  from t ret have len: "length mat = length [10, 20, 30 :: nat]"
    and sym: "\<forall>i<length [10, 20, 30 :: nat]. \<forall>j<length [10, 20, 30 :: nat]. mat ! i ! j = mat ! j ! i"
    and diag: "\<forall>i<length [10, 20, 30 :: nat]. mat ! i ! i = 0"
    by blast+
  from len have 1: "length mat = 3" by simp
  from sym have 2: "mat ! 0 ! 2 = mat ! 2 ! 0" by simp
  from diag have 3: "mat ! 1 ! 1 = 0" by simp
  from total sample_run ret 1 2 3 show ?thesis by blast
qed

end
